theory Spec2Isabelle
  imports Main "HOL-Library.Sublist"
begin

section \<open>Strings\<close>

text \<open>
  Go strings are byte strings; they are modelled as \<^typ>\<open>string\<close> (a list of 8-bit
  characters). An error value is modelled by its message.
\<close>

type_synonym error = string

text \<open>
  \<^verbatim>\<open>strings.ToLower\<close> of the Go standard library, on its ASCII branch: the bytes
  \<^verbatim>\<open>'A'..'Z'\<close> are moved by \<^verbatim>\<open>'a' - 'A'\<close>, every other byte is kept. (For a string
  with a byte of 0x80 and above Go maps whole runes through \<^verbatim>\<open>unicode.ToLower\<close>; such
  bytes are kept unchanged here.)
\<close>

definition lower_byte :: "char \<Rightarrow> char" where
  "lower_byte c =
     (if (65::nat) \<le> of_char c \<and> of_char c \<le> (90::nat)
      then char_of (of_char c + (32::nat)) else c)"

definition ToLower :: "string \<Rightarrow> string" where
  "ToLower s = map lower_byte s"

text \<open>
  \<^verbatim>\<open>strings.Contains(s, substr)\<close>: \<^verbatim>\<open>substr\<close> occurs in \<^verbatim>\<open>s\<close> as a contiguous run of
  bytes, at some start position; the empty string occurs in every string.
\<close>

fun Contains :: "string \<Rightarrow> string \<Rightarrow> bool" where
  "Contains [] substr = (substr = [])"
| "Contains (c # s) substr = (prefix substr (c # s) \<or> Contains s substr)"

text \<open>
  \<^verbatim>\<open>filepath.Base\<close> on a Unix path: the empty path gives \<^verbatim>\<open>"."\<close>, trailing slashes are
  stripped, the text after the last remaining slash is returned, and a path of slashes
  only gives \<^verbatim>\<open>"/"\<close>.
\<close>

definition Base :: "string \<Rightarrow> string" where
  "Base path =
     (if path = [] then ''.''
      else let p = rev (dropWhile (\<lambda>c. c = CHR ''/'') (rev path));
               q = rev (takeWhile (\<lambda>c. c \<noteq> CHR ''/'') (rev p))
           in if q = [] then ''/'' else q)"

text \<open>
  Containment ignoring case, as the specification words the path matcher: both sides are
  lower-cased before the search.
\<close>

definition contains_fold :: "string \<Rightarrow> string \<Rightarrow> bool" where
  "contains_fold s substr = Contains (ToLower s) (ToLower substr)"

section \<open>ACH documents and files\<close>

text \<open>
  The part of \<^verbatim>\<open>ach.File\<close> the processors read. \<^verbatim>\<open>Addenda98\<close> of an entry is a
  pointer (absent or present); when present it is represented by the code that
  \<^verbatim>\<open>Addenda98.ChangeCodeField().Code\<close> yields. A batch is read through its interface
  methods \<^verbatim>\<open>GetHeader\<close> and \<^verbatim>\<open>GetEntries\<close>.
\<close>

record EntryDetail =
  TraceNumber :: string
  Addenda98 :: "string option"

record Batcher =
  GetHeader :: string
  GetEntries :: "EntryDetail list"

record FileHeader =
  ImmediateOrigin :: string
  ImmediateDestination :: string

record ach_File =
  Header :: FileHeader
  Batches :: "Batcher list"
  NotificationOfChange :: "Batcher list"

text \<open>
  \<^verbatim>\<open>rdfi.File\<close>: the path in the staging directory and the parsed document, a pointer
  that the nil guard of \<^verbatim>\<open>creditReconciliation.Handle\<close> shows can be nil.
\<close>

record File =
  Filepath :: string
  ACHFile :: "ach_File option"

text \<open>\<^verbatim>\<open>models.Batch\<close> and the two event payloads the processors of this development send.\<close>

record models_Batch =
  Batch_Header :: string
  Batch_Entries :: "EntryDetail list"

datatype models_Event =
    CorrectionFile string ach_File "models_Batch list"
  | ReconciliationFile string ach_File "models_Batch list"

section \<open>Processor state and outcomes\<close>

text \<open>
  What a processor can change: the events handed to the emitter (every call of
  \<^verbatim>\<open>svc.Send\<close>), the two Prometheus counters (one list element with the label values per
  \<^verbatim>\<open>Add(1)\<close>, so that a counter's value for some labels is the number of occurrences), and
  the log.
\<close>

datatype log_line =
    LogCorrectionBatches string string nat
  | LogCorrectionEntry string string nat nat string
  | LogProcessingReconciliation string
  | LogReconciliationEntry string
  | LogSendCorrectionError error
  | LogSendReconciliationError error

record pstate =
  sent :: "models_Event list"
  correctionCodesProcessed :: "(string \<times> string \<times> string) list"
  creditReconciliationFilesProcessed :: "(string \<times> string) list"
  logged :: "log_line list"

text \<open>
  A call either returns or faults with Go's nil-pointer panic. The emitter \<^verbatim>\<open>svc\<close> is an
  interface value that may be nil; when present, \<^verbatim>\<open>Send\<close> answers with an optional error.
\<close>

datatype 'a outcome = Panic | Returned 'a

type_synonym Emitter = "models_Event \<Rightarrow> error option"

record ODFICorrections =
  Corrections_Enabled :: bool
  Corrections_PathMatcher :: string

record ODFIReconciliation =
  Enabled :: bool
  PathMatcher :: string

section \<open>The correction processor\<close>

record correctionProcessor =
  corr_svc :: "Emitter option"
  corr_cfg :: ODFICorrections

definition CorrectionEmitter :: "ODFICorrections \<Rightarrow> Emitter option \<Rightarrow> correctionProcessor option" where
  "CorrectionEmitter cfg svc =
     (if \<not> Corrections_Enabled cfg then None else Some \<lparr>corr_svc = svc, corr_cfg = cfg\<rparr>)"

text \<open>
  \<^verbatim>\<open>isCorrectionFile\<close> reads \<^verbatim>\<open>file.ACHFile.NotificationOfChange\<close> with no guard: on a nil
  document the read panics. The comparison is the source's \<^verbatim>\<open>>= 0\<close>.
\<close>

definition isCorrectionFile :: "File \<Rightarrow> bool outcome" where
  "isCorrectionFile file =
     (case ACHFile file of
        None \<Rightarrow> Panic
      | Some a \<Rightarrow> Returned (int (length (NotificationOfChange a)) \<ge> 0))"

text \<open>The guard of \<^verbatim>\<open>Handle\<close> that ignores a file whose path lacks the matcher.\<close>

definition correction_path_skipped :: "ODFICorrections \<Rightarrow> File \<Rightarrow> bool" where
  "correction_path_skipped cfg file =
     (Corrections_PathMatcher cfg \<noteq> [] \<and>
      \<not> Contains (ToLower (Filepath file)) (Corrections_PathMatcher cfg))"

definition correction_sendEvent :: "correctionProcessor \<Rightarrow> models_Event \<Rightarrow> pstate \<Rightarrow> pstate" where
  "correction_sendEvent pc event st =
     (case corr_svc pc of
        None \<Rightarrow> st
      | Some send \<Rightarrow>
          (let st1 = st\<lparr>sent := sent st @ [event]\<rparr> in
           case send event of
             None \<Rightarrow> st1
           | Some err \<Rightarrow> st1\<lparr>logged := logged st1 @ [LogSendCorrectionError err]\<rparr>))"

text \<open>The inner loop over the entries of NoC batch \<^verbatim>\<open>i\<close>, from entry index \<^verbatim>\<open>j\<close> on.\<close>

fun correction_entries :: "FileHeader \<Rightarrow> nat \<Rightarrow> nat \<Rightarrow> EntryDetail list \<Rightarrow> pstate \<Rightarrow> pstate" where
  "correction_entries h i j [] st = st"
| "correction_entries h i j (e # es) st =
     (case Addenda98 e of
        None \<Rightarrow> correction_entries h i (Suc j) es st
      | Some code \<Rightarrow>
          correction_entries h i (Suc j) es
            (st\<lparr>correctionCodesProcessed :=
                  correctionCodesProcessed st @ [(ImmediateOrigin h, ImmediateDestination h, code)],
                logged := logged st @
                  [LogCorrectionEntry (ImmediateOrigin h) (ImmediateDestination h) i j code]\<rparr>))"

text \<open>The outer loop over the NoC batches, from batch index \<^verbatim>\<open>i\<close> on, growing \<^verbatim>\<open>msg.Corrections\<close>.\<close>

fun correction_batches ::
  "FileHeader \<Rightarrow> nat \<Rightarrow> Batcher list \<Rightarrow> models_Batch list \<Rightarrow> pstate \<Rightarrow> models_Batch list \<times> pstate" where
  "correction_batches h i [] corrections st = (corrections, st)"
| "correction_batches h i (b # bs) corrections st =
     (let entries = GetEntries b in
      correction_batches h (Suc i) bs
        (corrections @ [\<lparr>Batch_Header = GetHeader b, Batch_Entries = entries\<rparr>])
        (correction_entries h i 0 entries st))"

definition correction_Handle ::
  "correctionProcessor \<Rightarrow> File \<Rightarrow> pstate \<Rightarrow> (error option \<times> pstate) outcome" where
  "correction_Handle pc file st =
     (case isCorrectionFile file of
        Panic \<Rightarrow> Panic
      | Returned is_correction \<Rightarrow>
          if \<not> is_correction then Returned (None, st)
          else if correction_path_skipped (corr_cfg pc) file then Returned (None, st)
          else
            (case ACHFile file of
               None \<Rightarrow> Panic
             | Some a \<Rightarrow>
                 (let st1 = st\<lparr>logged := logged st @
                        [LogCorrectionBatches (ImmediateOrigin (Header a))
                           (ImmediateDestination (Header a)) (length (NotificationOfChange a))]\<rparr>;
                      (corrections, st2) =
                        correction_batches (Header a) 0 (NotificationOfChange a) [] st1
                  in Returned (None,
                       correction_sendEvent pc
                         (CorrectionFile (Base (Filepath file)) a corrections) st2))))"

section \<open>The credit reconciliation processor\<close>

record creditReconciliation =
  recon_svc :: "Emitter option"
  recon_cfg :: ODFIReconciliation

definition CreditReconciliationEmitter ::
  "ODFIReconciliation \<Rightarrow> Emitter option \<Rightarrow> creditReconciliation option" where
  "CreditReconciliationEmitter cfg svc =
     (if \<not> Enabled cfg then None else Some \<lparr>recon_svc = svc, recon_cfg = cfg\<rparr>)"






section \<open>The inbound submission handler\<close>

text \<open>
  The request as the handler reads it: the route variables of \<^verbatim>\<open>mux.Vars\<close> (a missing
  key reads as the empty string) and the body stream, which delivers its bytes and then
  ends with EOF or with a read error.
\<close>

record Request =
  Vars :: "string \<rightharpoonup> string"
  body_bytes :: string
  body_error :: "error option"

record HTTPConfig =
  MaxBodyBytes :: int

datatype incoming_Event =
    incoming_ACHFile string string ach_File
  | incoming_CancelACHFile string string

record pubsub_Message =
  Body :: string
  Metadata :: "string \<rightharpoonup> string"

text \<open>
  The collaborators of the controller, none of which is part of these sources:
  \<^verbatim>\<open>compliance.Reveal\<close> and \<^verbatim>\<open>compliance.Protect\<close> (with the configured transform),
  \<^verbatim>\<open>ach.NewReader(..).Read\<close> (a file value and an optional error),
  \<^verbatim>\<open>ach.FileFromJSON\<close> (a file pointer and an optional error) and the publisher's
  \<^verbatim>\<open>Send\<close>. They are parameters of the model.
\<close>

record FilesController =
  cfg :: HTTPConfig
  compliance_Reveal :: "string \<Rightarrow> error + string"
  ach_Read :: "string \<Rightarrow> ach_File \<times> error option"
  ach_FileFromJSON :: "string \<Rightarrow> ach_File option \<times> error option"
  compliance_Protect :: "incoming_Event \<Rightarrow> error + string"
  publisher_Send :: "pubsub_Message \<Rightarrow> error option"

text \<open>
  The answer of a handler: the status code given to \<^verbatim>\<open>WriteHeader\<close> and the messages
  handed to the publisher's \<^verbatim>\<open>Send\<close>.
\<close>

record Response =
  status :: nat
  published :: "pubsub_Message list"

definition StatusOK :: nat where "StatusOK = 200"
definition StatusBadRequest :: nat where "StatusBadRequest = 400"
definition StatusInternalServerError :: nat where "StatusInternalServerError = 500"

definition mux_var :: "Request \<Rightarrow> string \<Rightarrow> string" where
  "mux_var r k = (case Vars r k of None \<Rightarrow> [] | Some v \<Rightarrow> v)"

text \<open>
  \<^verbatim>\<open>io.ReadAll\<close> over the body, behind \<^verbatim>\<open>io.LimitReader\<close> when \<^verbatim>\<open>MaxBodyBytes > 0\<close>: a
  limited reader stops with EOF after the limit, before the stream's own end is seen.
\<close>

definition readAll :: "HTTPConfig \<Rightarrow> Request \<Rightarrow> error + string" where
  "readAll c r =
     (if MaxBodyBytes c > 0 \<and> MaxBodyBytes c \<le> int (length (body_bytes r))
      then Inr (take (nat (MaxBodyBytes c)) (body_bytes r))
      else (case body_error r of Some err \<Rightarrow> Inl err | None \<Rightarrow> Inr (body_bytes r)))"

definition readBody :: "FilesController \<Rightarrow> Request \<Rightarrow> error + string" where
  "readBody c req =
     (case readAll (cfg c) req of
        Inl err \<Rightarrow> Inl err
      | Inr bs \<Rightarrow> compliance_Reveal c bs)"

definition publishFile ::
  "FilesController \<Rightarrow> string \<Rightarrow> string \<Rightarrow> ach_File \<Rightarrow> error option \<times> pubsub_Message list" where
  "publishFile c shardKey fileID file =
     (case compliance_Protect c (incoming_ACHFile fileID shardKey file) of
        Inl err \<Rightarrow> (Some (''unable to protect incoming file event: '' @ err), [])
      | Inr bs \<Rightarrow>
          (let meta = Map.empty(''fileID'' \<mapsto> fileID, ''shardKey'' \<mapsto> shardKey);
               msg = \<lparr>Body = bs, Metadata = meta\<rparr>
           in (publisher_Send c msg, [msg])))"

text \<open>The two decoding attempts of the handler: the wire format, then JSON.\<close>

definition decode_body :: "FilesController \<Rightarrow> string \<Rightarrow> ach_File option" where
  "decode_body c bs =
     (case ach_Read c bs of
        (file, None) \<Rightarrow> Some file
      | (file, Some err) \<Rightarrow>
          (case ach_FileFromJSON c bs of
             (f, err2) \<Rightarrow> if f = None \<or> err2 \<noteq> None then None else f))"

definition CreateFileHandler :: "FilesController \<Rightarrow> Request \<Rightarrow> Response" where
  "CreateFileHandler c r =
     (let shardKey = mux_var r ''shardKey''; fileID = mux_var r ''fileID'' in
      if shardKey = [] \<or> fileID = [] then \<lparr>status = StatusBadRequest, published = []\<rparr>
      else
        (case readBody c r of
           Inl err \<Rightarrow> \<lparr>status = StatusBadRequest, published = []\<rparr>
         | Inr bs \<Rightarrow>
             (case decode_body c bs of
                None \<Rightarrow> \<lparr>status = StatusBadRequest, published = []\<rparr>
              | Some file \<Rightarrow>
                  (case publishFile c shardKey fileID file of
                     (Some err, msgs) \<Rightarrow> \<lparr>status = StatusInternalServerError, published = msgs\<rparr>
                   | (None, msgs) \<Rightarrow> \<lparr>status = StatusOK, published = msgs\<rparr>))))"

section \<open>The periodic scheduler\<close>

record Shard =
  Name :: string
  UploadAgent :: string

record Agent =
  Hostname :: string

text \<open>
  Modelled from the spec: the type \<^verbatim>\<open>downloadedFiles\<close> is not declared in these sources.
  The specification's DownloadBundle is a local directory root and the files retrieved;
  each file is kept with its remote path and the size of its local copy.
\<close>

record downloadedFiles =
  dir :: string
  files :: "(string \<times> nat) list"

record StorageConfig =
  KeepRemoteFiles :: bool
  RemoveZeroByteFiles :: bool
  CleanupLocalDirectory :: bool

record ODFIFiles =
  ShardNames :: "string list"
  Storage :: StorageConfig

text \<open>
  Every call the scheduler makes outside itself is recorded, with its answer, as an event;
  \<^verbatim>\<open>TickStart\<close> and \<^verbatim>\<open>TickEnd\<close> mark the call of \<^verbatim>\<open>tick\<close> and its return.
\<close>

datatype event =
    Log string
  | AcquireLock string "error option"
  | TickStart Shard
  | TickEnd Shard "error option"
  | NewAgent string "error + Agent"
  | CopyFilesFromRemote Agent "error + downloadedFiles"
  | NewAuditSaver string "error option"
  | ProcessFiles downloadedFiles "error option"
  | RemoteDelete Agent string "error option"
  | DeleteFiles downloadedFiles "error option"
  | DeleteEmptyDirs downloadedFiles "error option"
  | AlertError error "error option"

type_synonym trace = "event list"

text \<open>
  The scheduler's configuration and its collaborators. A collaborator's answer may depend
  on everything that happened before (the trace so far), so that every outcome of a lock
  acquisition, a download, a delete or an alert is covered.
\<close>

record PeriodicScheduler =
  odfi :: ODFIFiles
  sharding_Find :: "string \<Rightarrow> Shard option"
  consul_AcquireLock :: "trace \<Rightarrow> string \<Rightarrow> error option"
  upload_New :: "trace \<Rightarrow> string \<Rightarrow> error + Agent"
  downloader_CopyFilesFromRemote :: "trace \<Rightarrow> Agent \<Rightarrow> error + downloadedFiles"
  audit_newAuditSaver :: "trace \<Rightarrow> string \<Rightarrow> error option"
  rdfi_ProcessFiles :: "trace \<Rightarrow> downloadedFiles \<Rightarrow> error option"
  agent_Delete :: "trace \<Rightarrow> Agent \<Rightarrow> string \<Rightarrow> error option"
  dl_deleteFiles :: "trace \<Rightarrow> downloadedFiles \<Rightarrow> error option"
  dl_deleteEmptyDirs :: "trace \<Rightarrow> downloadedFiles \<Rightarrow> Agent \<Rightarrow> error option"
  alerters_AlertError :: "trace \<Rightarrow> error \<Rightarrow> error option"

text \<open>
  Deleting a list of remote paths through the agent: every path is tried, and the first
  error is the result.
\<close>

fun delete_remote ::
  "PeriodicScheduler \<Rightarrow> Agent \<Rightarrow> string list \<Rightarrow> trace \<Rightarrow> error option \<times> trace" where
  "delete_remote s agent [] tr = (None, [])"
| "delete_remote s agent (p # ps) tr =
     (let r = agent_Delete s tr agent p;
          (r', evs) = delete_remote s agent ps (tr @ [RemoteDelete agent p r])
      in ((case r of Some err \<Rightarrow> Some err | None \<Rightarrow> r'), RemoteDelete agent p r # evs))"

text \<open>
  Modelled from the spec: \<^verbatim>\<open>Cleanup\<close> is not part of these sources. Cleanup step 1 of the
  specification: delete every remote file that was downloaded this tick, by the remote
  path recorded in the bundle; a failing step returns an error.
\<close>

definition Cleanup ::
  "PeriodicScheduler \<Rightarrow> Agent \<Rightarrow> downloadedFiles \<Rightarrow> trace \<Rightarrow> error option \<times> trace" where
  "Cleanup s agent dl tr = delete_remote s agent (map fst (files dl)) tr"

text \<open>
  Modelled from the spec: \<^verbatim>\<open>CleanupEmptyFiles\<close> is not part of these sources. Cleanup step
  2 of the specification: delete the remote files whose downloaded local size is zero.
\<close>

definition zero_byte_paths :: "downloadedFiles \<Rightarrow> string list" where
  "zero_byte_paths dl = map fst (filter (\<lambda>f. snd f = 0) (files dl))"

definition CleanupEmptyFiles ::
  "PeriodicScheduler \<Rightarrow> Agent \<Rightarrow> downloadedFiles \<Rightarrow> trace \<Rightarrow> error option \<times> trace" where
  "CleanupEmptyFiles s agent dl tr = delete_remote s agent (zero_byte_paths dl) tr"

text \<open>The cleanup routines at the end of \<^verbatim>\<open>tick\<close>, each behind its policy flag.\<close>

definition tick_cleanup ::
  "PeriodicScheduler \<Rightarrow> Agent \<Rightarrow> downloadedFiles \<Rightarrow> trace \<Rightarrow> error option \<times> trace" where
  "tick_cleanup s agent dl tr =
     (let (err1, ev1) =
            (if \<not> KeepRemoteFiles (Storage (odfi s)) then Cleanup s agent dl tr else (None, []))
      in case err1 of
           Some err \<Rightarrow> (Some (''ERROR: deleting remote files: '' @ err), ev1)
         | None \<Rightarrow>
             (let (err2, ev2) =
                    (if RemoveZeroByteFiles (Storage (odfi s))
                     then CleanupEmptyFiles s agent dl (tr @ ev1) else (None, []))
              in case err2 of
                   Some err \<Rightarrow> (Some (''ERROR: deleting zero byte files: '' @ err), ev1 @ ev2)
                 | None \<Rightarrow>
                     if CleanupLocalDirectory (Storage (odfi s))
                     then (let r = dl_deleteFiles s (tr @ ev1 @ ev2) dl
                           in (r, ev1 @ ev2 @ [DeleteFiles dl r]))
                     else (let r = dl_deleteEmptyDirs s (tr @ ev1 @ ev2) dl agent
                           in (r, ev1 @ ev2 @ [DeleteEmptyDirs dl r]))))"

text \<open>The steps of \<^verbatim>\<open>tick\<close> after the files were copied from the remote.\<close>

definition tick_process ::
  "PeriodicScheduler \<Rightarrow> Agent \<Rightarrow> downloadedFiles \<Rightarrow> trace \<Rightarrow> error option \<times> trace" where
  "tick_process s agent dl tr =
     (let r3 = audit_newAuditSaver s tr (Hostname agent);
          ev3 = [NewAuditSaver (Hostname agent) r3]
      in case r3 of
           Some err \<Rightarrow> (Some (''ERROR: '' @ err), ev3)
         | None \<Rightarrow>
             (let r4 = rdfi_ProcessFiles s (tr @ ev3) dl;
                  ev4 = ev3 @ [ProcessFiles dl r4]
              in case r4 of
                   Some err \<Rightarrow> (Some (''ERROR: processing files: '' @ err), ev4)
                 | None \<Rightarrow>
                     (let (r5, ev5) = tick_cleanup s agent dl (tr @ ev4)
                      in (r5, ev4 @ ev5))))"

definition tick :: "PeriodicScheduler \<Rightarrow> Shard \<Rightarrow> trace \<Rightarrow> error option \<times> trace" where
  "tick s shard tr =
     (case upload_New s tr (UploadAgent shard) of
        Inl err \<Rightarrow> (Some (''agent: '' @ err), [NewAgent (UploadAgent shard) (Inl err)])
      | Inr agent \<Rightarrow>
          (let ev1 = [NewAgent (UploadAgent shard) (Inr agent),
                      Log (''start retrieving and processing of inbound files in '' @ Hostname agent)];
               r2 = downloader_CopyFilesFromRemote s (tr @ ev1) agent;
               ev2 = ev1 @ [CopyFilesFromRemote agent r2]
           in case r2 of
                Inl err \<Rightarrow> (Some (''ERROR: problem copying files: '' @ err), ev2)
              | Inr dl \<Rightarrow>
                  (let (r, ev) = tick_process s agent dl (tr @ ev2) in (r, ev2 @ ev))))"

definition alertOnError :: "PeriodicScheduler \<Rightarrow> trace \<Rightarrow> error option \<Rightarrow> trace" where
  "alertOnError s tr e =
     (case e of
        None \<Rightarrow> []
      | Some err \<Rightarrow>
          (let r = alerters_AlertError s tr err in
           case r of
             None \<Rightarrow> [AlertError err r]
           | Some err2 \<Rightarrow> [AlertError err r, Log (''ERROR sending alert: '' @ err2)]))"

definition leaderKey :: "string \<Rightarrow> string" where
  "leaderKey shardName = ''achgateway/rdfi/'' @ shardName"

text \<open>The body of the loop of \<^verbatim>\<open>tickAll\<close>, for one shard name.\<close>

definition tickShard :: "PeriodicScheduler \<Rightarrow> string \<Rightarrow> trace \<Rightarrow> trace" where
  "tickShard s shardName tr =
     (case sharding_Find s shardName of
        None \<Rightarrow> [Log (''unable to find shard='' @ shardName)]
      | Some shard \<Rightarrow>
          (let ev1 = [Log (''attempting to acquire ODFI leadership for '' @ leaderKey shardName)];
               err = consul_AcquireLock s (tr @ ev1) (leaderKey shardName);
               ev2 = ev1 @ [AcquireLock (leaderKey shardName) err]
           in case err of
                Some e \<Rightarrow> ev2 @ [Log (''skipping ODFI processing: '' @ e)]
              | None \<Rightarrow>
                  (let ev3 = ev2 @ [Log (''starting rdfi periodic processing for '' @ Name shard),
                                    TickStart shard];
                       (terr, tev) = tick s shard (tr @ ev3);
                       ev4 = ev3 @ tev @ [TickEnd shard terr]
                   in case terr of
                        Some e \<Rightarrow>
                          ev4 @ alertOnError s (tr @ ev4) terr @
                            [Log (''error with rdfi periodic processing: '' @ e)]
                      | None \<Rightarrow>
                          ev4 @ [Log (''finished rdfi periodic processing for '' @ Name shard)])))"

fun tickAll_loop :: "PeriodicScheduler \<Rightarrow> string list \<Rightarrow> trace \<Rightarrow> trace" where
  "tickAll_loop s [] tr = []"
| "tickAll_loop s (shardName # rest) tr =
     (let ev = tickShard s shardName tr in ev @ tickAll_loop s rest (tr @ ev))"

definition tickAll :: "PeriodicScheduler \<Rightarrow> trace \<Rightarrow> error option \<times> trace" where
  "tickAll s tr = (None, tickAll_loop s (ShardNames (odfi s)) tr)"

subsection \<open>Reading a trace\<close>

fun lock_keys :: "trace \<Rightarrow> string list" where
  "lock_keys [] = []"
| "lock_keys (AcquireLock k r # es) = k # lock_keys es"
| "lock_keys (e # es) = lock_keys es"

fun remote_deletes :: "trace \<Rightarrow> string list" where
  "remote_deletes [] = []"
| "remote_deletes (RemoteDelete a p r # es) = p # remote_deletes es"
| "remote_deletes (e # es) = remote_deletes es"

fun alerts :: "trace \<Rightarrow> error list" where
  "alerts [] = []"
| "alerts (AlertError e r # es) = e # alerts es"
| "alerts (e # es) = alerts es"

fun tick_errors :: "trace \<Rightarrow> error list" where
  "tick_errors [] = []"
| "tick_errors (TickEnd sh (Some e) # es) = e # tick_errors es"
| "tick_errors (e # es) = tick_errors es"

fun ticks_started :: "trace \<Rightarrow> Shard list" where
  "ticks_started [] = []"
| "ticks_started (TickStart sh # es) = sh # ticks_started es"
| "ticks_started (e # es) = ticks_started es"

fun locks_acquired :: "trace \<Rightarrow> string list" where
  "locks_acquired [] = []"
| "locks_acquired (AcquireLock k None # es) = k # locks_acquired es"
| "locks_acquired (e # es) = locks_acquired es"

text \<open>
  A trace is led by its locks when every start of a tick comes after a successful
  acquisition of a key, with no other acquisition in between, and the key is the leader
  key of a configured name of the shard that is ticked. \<^verbatim>\<open>held\<close> is the key acquired
  last and not yet used.
\<close>

fun led_by_lock :: "(string \<Rightarrow> Shard option) \<Rightarrow> string option \<Rightarrow> trace \<Rightarrow> bool" where
  "led_by_lock lookup held [] = True"
| "led_by_lock lookup held (AcquireLock k r # es) =
     led_by_lock lookup (if r = None then Some k else None) es"
| "led_by_lock lookup held (TickStart sh # es) =
     ((case held of
         None \<Rightarrow> False
       | Some k \<Rightarrow> take 16 k = ''achgateway/rdfi/'' \<and> lookup (drop 16 k) = Some sh) \<and>
      led_by_lock lookup None es)"
| "led_by_lock lookup held (e # es) = led_by_lock lookup held es"

subsection \<open>Events that only \<^verbatim>\<open>tick\<close> produces\<close>

fun inside_tick :: "event \<Rightarrow> bool" where
  "inside_tick (AcquireLock k r) = False"
| "inside_tick (TickStart sh) = False"
| "inside_tick (TickEnd sh r) = False"
| "inside_tick (AlertError e r) = False"
| "inside_tick e = True"


section \<open>The batches a reconciliation event carries\<close>


section \<open>Concrete inputs\<close>

definition st0 :: pstate where
  "st0 = \<lparr>sent = [], correctionCodesProcessed = [],
          creditReconciliationFilesProcessed = [], logged = []\<rparr>"

definition send_ok :: Emitter where
  "send_ok event = None"

definition header1 :: FileHeader where
  "header1 = \<lparr>ImmediateOrigin = ''231380104'', ImmediateDestination = ''121042882''\<rparr>"

definition entry1 :: EntryDetail where
  "entry1 = \<lparr>TraceNumber = ''121042880000001'', Addenda98 = None\<rparr>"

definition doc_without_NoC :: ach_File where
  "doc_without_NoC = \<lparr>Header = header1, Batches = [], NotificationOfChange = []\<rparr>"

definition doc_two_batches :: ach_File where
  "doc_two_batches =
     \<lparr>Header = header1,
      Batches = [\<lparr>GetHeader = ''PPD'', GetEntries = []\<rparr>,
                 \<lparr>GetHeader = ''CCD'', GetEntries = [entry1]\<rparr>],
      NotificationOfChange = []\<rparr>"

definition corrections_any_path :: correctionProcessor where
  "corrections_any_path =
     \<lparr>corr_svc = Some send_ok,
      corr_cfg = \<lparr>Corrections_Enabled = True, Corrections_PathMatcher = []\<rparr>\<rparr>"






definition file_payments :: File where
  "file_payments = \<lparr>Filepath = ''/inbound/payments.ach'', ACHFile = Some doc_without_NoC\<rparr>"




definition shard_a :: Shard where
  "shard_a = \<lparr>Name = ''alpha'', UploadAgent = ''sftp-alpha''\<rparr>"

definition shard_b :: Shard where
  "shard_b = \<lparr>Name = ''beta'', UploadAgent = ''sftp-beta''\<rparr>"

definition bundle1 :: downloadedFiles where
  "bundle1 = \<lparr>dir = ''/tmp/rdfi-1'',
              files = [(''/inbound/empty.ach'', 0), (''/inbound/payments.ach'', 940)]\<rparr>"

definition shard_c :: Shard where
  "shard_c = \<lparr>Name = ''gamma'', UploadAgent = ''sftp-gamma''\<rparr>"

definition find_ab :: "string \<Rightarrow> Shard option" where
  "find_ab n =
     (if n = ''alpha'' then Some shard_a
      else if n = ''beta'' then Some shard_b
      else if n = ''gamma'' then Some shard_c
      else None)"

text \<open>
  A scheduler configured with four shard names, of which \<^verbatim>\<open>missing\<close> is not in the
  shard table. Its collaborators all succeed, except that the leader lock of \<^verbatim>\<open>gamma\<close> is
  held elsewhere and that copying the files of agent \<^verbatim>\<open>sftp-alpha\<close> fails; remote files
  are kept, zero-byte files are removed.
\<close>

definition sched1 :: PeriodicScheduler where
  "sched1 =
     \<lparr>odfi = \<lparr>ShardNames = [''alpha'', ''missing'', ''gamma'', ''beta''],
              Storage = \<lparr>KeepRemoteFiles = True, RemoveZeroByteFiles = True,
                         CleanupLocalDirectory = False\<rparr>\<rparr>,
      sharding_Find = find_ab,
      consul_AcquireLock =
        (\<lambda>tr key. if key = ''achgateway/rdfi/gamma'' then Some ''lock is held'' else None),
      upload_New = (\<lambda>tr name. Inr \<lparr>Hostname = name\<rparr>),
      downloader_CopyFilesFromRemote =
        (\<lambda>tr agent. if Hostname agent = ''sftp-alpha'' then Inl ''connection refused''
                     else Inr bundle1),
      audit_newAuditSaver = (\<lambda>tr host. None),
      rdfi_ProcessFiles = (\<lambda>tr dl. None),
      agent_Delete = (\<lambda>tr agent path. None),
      dl_deleteFiles = (\<lambda>tr dl. None),
      dl_deleteEmptyDirs = (\<lambda>tr dl agent. None),
      alerters_AlertError = (\<lambda>tr err. None)\<rparr>"

text \<open>
  A controller whose decoder accepts the body \<^verbatim>\<open>wire\<close> as wire format and the body
  \<^verbatim>\<open>json\<close> as JSON, and whose publisher refuses a message for shard \<^verbatim>\<open>closed\<close>.
\<close>

definition controller1 :: FilesController where
  "controller1 =
     \<lparr>cfg = \<lparr>MaxBodyBytes = 0\<rparr>,
      compliance_Reveal = (\<lambda>bs. Inr bs),
      ach_Read = (\<lambda>bs. if bs = ''wire'' then (doc_two_batches, None)
                         else (doc_without_NoC, Some ''not an ACH file'')),
      ach_FileFromJSON = (\<lambda>bs. if bs = ''json'' then (Some doc_without_NoC, None)
                                 else (None, Some ''not JSON'')),
      compliance_Protect = (\<lambda>event. Inr ''event''),
      publisher_Send = (\<lambda>msg. if Metadata msg ''shardKey'' = Some ''closed''
                               then Some ''topic closed'' else None)\<rparr>"

definition request1 :: "string \<Rightarrow> string \<Rightarrow> Request" where
  "request1 shardKey bs =
     \<lparr>Vars = [''shardKey'' \<mapsto> shardKey, ''fileID'' \<mapsto> ''file-1''],
      body_bytes = bs, body_error = None\<rparr>"

section \<open>Facts about strings\<close>


lemma Contains_sublist: "Contains s substr \<longleftrightarrow> sublist substr s"
  by (induction s) (auto simp: sublist_Cons_right)


text \<open>
  Containment ignoring case is what its name says: some stretch of the string equals the
  sought text up to the case of its letters.
\<close>

lemma contains_fold_occurrence:
  "contains_fold s m \<longleftrightarrow> (\<exists>ps w ss. s = ps @ w @ ss \<and> ToLower w = ToLower m)"
proof
  assume "contains_fold s m"
  then obtain ps ss where "map lower_byte s = ps @ map lower_byte m @ ss"
    by (auto simp: contains_fold_def Contains_sublist sublist_def ToLower_def)
  then have "\<exists>us vs. s = us @ vs \<and> ps = map lower_byte us \<and>
               map lower_byte m @ ss = map lower_byte vs"
    by (simp add: map_eq_append_conv)
  then obtain us vs where s: "s = us @ vs" and vs: "map lower_byte m @ ss = map lower_byte vs"
    by blast
  from vs have "\<exists>w t. vs = w @ t \<and> map lower_byte m = map lower_byte w \<and> ss = map lower_byte t"
    by (simp add: append_eq_map_conv)
  then obtain w t where "vs = w @ t" "map lower_byte w = map lower_byte m"
    by auto
  with s have "s = us @ w @ t \<and> map lower_byte w = map lower_byte m"
    by simp
  then show "\<exists>ps w ss. s = ps @ w @ ss \<and> ToLower w = ToLower m"
    unfolding ToLower_def by blast
next
  assume "\<exists>ps w ss. s = ps @ w @ ss \<and> ToLower w = ToLower m"
  then obtain ps w ss where "s = ps @ w @ ss" "ToLower w = ToLower m" by blast
  then have "ToLower s = ToLower ps @ ToLower m @ ToLower ss"
    by (simp add: ToLower_def)
  then show "contains_fold s m"
    unfolding contains_fold_def Contains_sublist sublist_def by blast
qed


subsection \<open>Searches on the concrete paths\<close>









section \<open>The loops of the reconciliation processor\<close>





section \<open>The correction processor on files without corrections and without a document\<close>

text \<open>
  Claim C1. The claim: for a file with a parsed document, \<^verbatim>\<open>Handle\<close> of the correction
  processor emits a \<^verbatim>\<open>CorrectionFile\<close> event (the path matcher passing) exactly when the
  file has a NotificationOfChange batch, and a file with none produces no event. The code
  does otherwise: \<^verbatim>\<open>isCorrectionFile\<close> compares the number of batches with \<^verbatim>\<open>>= 0\<close>, which
  holds of every file. Here a document with no NotificationOfChange batch, under a
  processor with an empty path matcher, is sent as a \<^verbatim>\<open>CorrectionFile\<close> event with an
  empty list of corrections; no counter is incremented.
\<close>

theorem correction_Handle_emits_without_NoC:
  "NotificationOfChange doc_without_NoC = [] \<and>
   correction_Handle corrections_any_path file_payments st0 =
     Returned (None,
       st0\<lparr>sent := [CorrectionFile ''payments.ach'' doc_without_NoC []],
           logged := [LogCorrectionBatches ''231380104'' ''121042882'' 0]\<rparr>)"
  by (simp add: correction_Handle_def isCorrectionFile_def correction_path_skipped_def
        correction_sendEvent_def corrections_any_path_def file_payments_def
        doc_without_NoC_def header1_def st0_def send_ok_def Base_def)

text \<open>
  Claim C2. The claim: on a file whose parsed document is nil every processor's \<^verbatim>\<open>Handle\<close>
  returns without reading through the nil pointer. The reconciliation processor has the
  guard; the correction processor has none: its first step, \<^verbatim>\<open>isCorrectionFile\<close>, reads
  \<^verbatim>\<open>file.ACHFile.NotificationOfChange\<close>, so that for every processor configuration, path
  and state the call ends in the nil-pointer panic.
\<close>

theorem correction_Handle_nil_document_panics:
  "correction_Handle pc \<lparr>Filepath = path, ACHFile = None\<rparr> st = Panic"
  by (simp add: correction_Handle_def isCorrectionFile_def)

section \<open>Files a processor does not recognize\<close>




section \<open>The path matcher\<close>




section \<open>Recognizing a reconciliation file\<close>




section \<open>The event of a recognized reconciliation file\<close>



section \<open>The submission handler\<close>

lemma decode_body_None:
  "decode_body c bs = None \<longleftrightarrow>
     snd (ach_Read c bs) \<noteq> None \<and>
     (fst (ach_FileFromJSON c bs) = None \<or> snd (ach_FileFromJSON c bs) \<noteq> None)"
  by (auto simp: decode_body_def split: prod.splits option.splits)

lemma publishFile_cases:
  "publishFile c shardKey fileID file =
     (case compliance_Protect c (incoming_ACHFile fileID shardKey file) of
        Inl err \<Rightarrow> (Some (''unable to protect incoming file event: '' @ err), [])
      | Inr bs \<Rightarrow>
          (publisher_Send c \<lparr>Body = bs, Metadata = [''fileID'' \<mapsto> fileID, ''shardKey'' \<mapsto> shardKey]\<rparr>,
           [\<lparr>Body = bs, Metadata = [''fileID'' \<mapsto> fileID, ''shardKey'' \<mapsto> shardKey]\<rparr>]))"
  by (simp add: publishFile_def Let_def split: sum.splits)

lemma request1_vars:
  "mux_var (request1 sk bs) ''shardKey'' = sk" "mux_var (request1 sk bs) ''fileID'' = ''file-1''"
  by (simp_all add: mux_var_def request1_def)

lemma request1_body: "readBody controller1 (request1 sk bs) = Inr bs"
  by (simp add: readBody_def readAll_def controller1_def request1_def)

text \<open>
  Claim C8. For every request to create a file: when the shard key or the file id is
  empty, or the body cannot be read, or the body is valid neither as wire format (the
  reader reports an error) nor as JSON (no file, or an error), the handler answers 400 and
  hands nothing to the publisher. Otherwise, with the decoded file: when publishing fails
  (protecting the event or sending the message returns an error) it answers 500; when
  publishing succeeds it answers 200 and has handed the publisher one message, whose
  metadata is the file id under \<^verbatim>\<open>fileID\<close> and the shard key under \<^verbatim>\<open>shardKey\<close>.
\<close>

theorem CreateFileHandler_responses:
  "((mux_var r ''shardKey'' = [] \<or> mux_var r ''fileID'' = [] \<or>
     (\<exists>err. readBody c r = Inl err) \<or>
     (\<exists>bs. readBody c r = Inr bs \<and> snd (ach_Read c bs) \<noteq> None \<and>
        (fst (ach_FileFromJSON c bs) = None \<or> snd (ach_FileFromJSON c bs) \<noteq> None)))
    \<longrightarrow> status (CreateFileHandler c r) = 400 \<and> published (CreateFileHandler c r) = []) \<and>
   (mux_var r ''shardKey'' \<noteq> [] \<and> mux_var r ''fileID'' \<noteq> [] \<and>
    readBody c r = Inr bs \<and> decode_body c bs = Some file
    \<longrightarrow> (fst (publishFile c (mux_var r ''shardKey'') (mux_var r ''fileID'') file) \<noteq> None
           \<longrightarrow> status (CreateFileHandler c r) = 500) \<and>
        (fst (publishFile c (mux_var r ''shardKey'') (mux_var r ''fileID'') file) = None
           \<longrightarrow> status (CreateFileHandler c r) = 200 \<and>
               (\<exists>body. published (CreateFileHandler c r) =
                  [\<lparr>Body = body,
                    Metadata = [''fileID'' \<mapsto> mux_var r ''fileID'',
                                ''shardKey'' \<mapsto> mux_var r ''shardKey'']\<rparr>])))"
proof (intro conjI impI)
  assume bad: "mux_var r ''shardKey'' = [] \<or> mux_var r ''fileID'' = [] \<or>
     (\<exists>err. readBody c r = Inl err) \<or>
     (\<exists>bs. readBody c r = Inr bs \<and> snd (ach_Read c bs) \<noteq> None \<and>
        (fst (ach_FileFromJSON c bs) = None \<or> snd (ach_FileFromJSON c bs) \<noteq> None))"
  then consider (no_shard) "mux_var r ''shardKey'' = []" | (no_file) "mux_var r ''fileID'' = []"
    | (unread) err where "readBody c r = Inl err"
    | (undecoded) bs where "readBody c r = Inr bs" "decode_body c bs = None"
    by (auto simp: decode_body_None)
  then have "CreateFileHandler c r = \<lparr>status = StatusBadRequest, published = []\<rparr>"
    by cases (simp_all add: CreateFileHandler_def Let_def)
  then show "status (CreateFileHandler c r) = 400" "published (CreateFileHandler c r) = []"
    by (simp_all add: StatusBadRequest_def)
next
  assume ok: "mux_var r ''shardKey'' \<noteq> [] \<and> mux_var r ''fileID'' \<noteq> [] \<and>
    readBody c r = Inr bs \<and> decode_body c bs = Some file"
  let ?p = "publishFile c (mux_var r ''shardKey'') (mux_var r ''fileID'') file"
  have h: "CreateFileHandler c r =
             (case ?p of
                (Some err, msgs) \<Rightarrow> \<lparr>status = StatusInternalServerError, published = msgs\<rparr>
              | (None, msgs) \<Rightarrow> \<lparr>status = StatusOK, published = msgs\<rparr>)"
    using ok by (simp add: CreateFileHandler_def Let_def)
  {
    assume "fst ?p \<noteq> None"
    then show "status (CreateFileHandler c r) = 500"
      by (auto simp: h StatusInternalServerError_def split: prod.splits option.splits)
  }
  {
    assume n: "fst ?p = None"
    then show "status (CreateFileHandler c r) = 200"
      by (auto simp: h StatusOK_def split: prod.splits option.splits)
    from n show "\<exists>body. published (CreateFileHandler c r) =
                  [\<lparr>Body = body,
                    Metadata = [''fileID'' \<mapsto> mux_var r ''fileID'',
                                ''shardKey'' \<mapsto> mux_var r ''shardKey'']\<rparr>]"
      by (auto simp: h publishFile_cases split: prod.splits option.splits sum.splits)
  }
qed

theorem CreateFileHandler_responses_witness:
  "status (CreateFileHandler controller1 (request1 ''testing'' ''junk'')) = 400 \<and>
   published (CreateFileHandler controller1 (request1 ''testing'' ''junk'')) = [] \<and>
   status (CreateFileHandler controller1 (request1 ''closed'' ''json'')) = 500 \<and>
   status (CreateFileHandler controller1 (request1 ''testing'' ''wire'')) = 200 \<and>
   (\<exists>body. published (CreateFileHandler controller1 (request1 ''testing'' ''wire'')) =
      [\<lparr>Body = body,
        Metadata = [''fileID'' \<mapsto> ''file-1'', ''shardKey'' \<mapsto> ''testing'']\<rparr>])"
proof -
  have junk: "snd (ach_Read controller1 ''junk'') \<noteq> None"
    "fst (ach_FileFromJSON controller1 ''junk'') = None"
    by (simp_all add: controller1_def)
  have d1: "decode_body controller1 ''json'' = Some doc_without_NoC"
    by (simp add: decode_body_def controller1_def)
  have d2: "decode_body controller1 ''wire'' = Some doc_two_batches"
    by (simp add: decode_body_def controller1_def)
  have p1: "fst (publishFile controller1 ''closed'' ''file-1'' doc_without_NoC) \<noteq> None"
    by (simp add: publishFile_def controller1_def)
  have p2: "fst (publishFile controller1 ''testing'' ''file-1'' doc_two_batches) = None"
    by (simp add: publishFile_def controller1_def)
  show ?thesis
    using CreateFileHandler_responses
            [of "request1 ''testing'' ''junk''" controller1 "''junk''" doc_without_NoC]
          CreateFileHandler_responses
            [of "request1 ''closed'' ''json''" controller1 "''json''" doc_without_NoC]
          CreateFileHandler_responses
            [of "request1 ''testing'' ''wire''" controller1 "''wire''" doc_two_batches]
          junk d1 d2 p1 p2
    by (simp add: request1_vars request1_body)
qed

section \<open>Reading traces of the scheduler\<close>

lemma lock_keys_append: "lock_keys (xs @ ys) = lock_keys xs @ lock_keys ys"
  by (induction xs rule: lock_keys.induct) simp_all

lemma remote_deletes_append: "remote_deletes (xs @ ys) = remote_deletes xs @ remote_deletes ys"
  by (induction xs rule: remote_deletes.induct) simp_all

lemma alerts_append: "alerts (xs @ ys) = alerts xs @ alerts ys"
  by (induction xs rule: alerts.induct) simp_all

lemma tick_errors_append: "tick_errors (xs @ ys) = tick_errors xs @ tick_errors ys"
  by (induction xs rule: tick_errors.induct) simp_all

lemma ticks_started_append: "ticks_started (xs @ ys) = ticks_started xs @ ticks_started ys"
  by (induction xs rule: ticks_started.induct) simp_all

lemma locks_acquired_append: "locks_acquired (xs @ ys) = locks_acquired xs @ locks_acquired ys"
  by (induction xs rule: locks_acquired.induct) simp_all

lemma inside_lock_keys: "list_all inside_tick evs \<Longrightarrow> lock_keys evs = []"
  by (induction evs rule: lock_keys.induct) simp_all

lemma inside_alerts: "list_all inside_tick evs \<Longrightarrow> alerts evs = []"
  by (induction evs rule: alerts.induct) simp_all

lemma inside_tick_errors: "list_all inside_tick evs \<Longrightarrow> tick_errors evs = []"
  by (induction evs rule: tick_errors.induct) simp_all

lemma inside_ticks_started: "list_all inside_tick evs \<Longrightarrow> ticks_started evs = []"
  by (induction evs rule: ticks_started.induct) simp_all

lemma inside_locks_acquired: "list_all inside_tick evs \<Longrightarrow> locks_acquired evs = []"
  by (induction evs rule: locks_acquired.induct) simp_all

lemma inside_tick_led:
  "list_all inside_tick evs \<Longrightarrow> led_by_lock f held (evs @ rest) = led_by_lock f held rest"
  by (induction f held evs rule: led_by_lock.induct) simp_all

section \<open>One tick\<close>

lemma delete_remote_inside: "list_all inside_tick (snd (delete_remote s agent ps tr))"
  by (induction ps arbitrary: tr) (simp_all add: Let_def split_beta)

lemma delete_remote_deletes: "remote_deletes (snd (delete_remote s agent ps tr)) = ps"
  by (induction ps arbitrary: tr) (simp_all add: Let_def split_beta)

lemma tick_cleanup_inside: "list_all inside_tick (snd (tick_cleanup s agent dl tr))"
  by (simp add: tick_cleanup_def Cleanup_def CleanupEmptyFiles_def Let_def split_beta
        delete_remote_inside split: option.splits)

lemma tick_process_inside: "list_all inside_tick (snd (tick_process s agent dl tr))"
  by (simp add: tick_process_def Let_def split_beta tick_cleanup_inside split: option.splits)

lemma tick_inside: "list_all inside_tick (snd (tick s shard tr))"
  by (simp add: tick_def Let_def split_beta tick_process_inside split: sum.splits)

lemmas tick_silent =
  inside_lock_keys [OF tick_inside] inside_alerts [OF tick_inside]
  inside_tick_errors [OF tick_inside] inside_ticks_started [OF tick_inside]
  inside_locks_acquired [OF tick_inside]

lemma tick_cleanup_keep:
  assumes "KeepRemoteFiles (Storage (odfi s))"
  shows "remote_deletes (snd (tick_cleanup s agent dl tr)) =
           (if RemoveZeroByteFiles (Storage (odfi s)) then zero_byte_paths dl else [])"
  using assms
  by (simp add: tick_cleanup_def CleanupEmptyFiles_def Let_def split_beta
        remote_deletes_append delete_remote_deletes split: option.splits)

lemma tick_process_keep:
  assumes "KeepRemoteFiles (Storage (odfi s))"
  shows "remote_deletes (snd (tick_process s agent dl tr)) = [] \<or>
         RemoveZeroByteFiles (Storage (odfi s)) \<and>
           remote_deletes (snd (tick_process s agent dl tr)) = zero_byte_paths dl"
  using assms
  by (simp add: tick_process_def Let_def split_beta remote_deletes_append tick_cleanup_keep
        split: option.splits)

text \<open>
  Claim C4. The claim: in a tick run with \<^verbatim>\<open>keep_remote_files\<close> set no remote delete is
  invoked on the agent, whatever the other flags. The code runs \<^verbatim>\<open>CleanupEmptyFiles\<close>
  behind \<^verbatim>\<open>remove_zero_byte_files\<close> alone: with both flags set and a downloaded file of
  size zero, the tick deletes that file on the remote.
\<close>

theorem tick_keep_remote_files_counterexample:
  "KeepRemoteFiles (Storage (odfi sched1)) \<and>
   remote_deletes (snd (tick sched1 shard_b [])) = [''/inbound/empty.ach'']"
  by (simp add: tick_def tick_process_def tick_cleanup_def CleanupEmptyFiles_def
        zero_byte_paths_def sched1_def shard_b_def bundle1_def Let_def)

text \<open>
  Claim C4, amended. In a tick run with \<^verbatim>\<open>keep_remote_files\<close> set, either no remote delete
  is invoked, or \<^verbatim>\<open>remove_zero_byte_files\<close> is set as well and the remote deletes of the
  tick are those of the files of the downloaded bundle whose local size is zero, and of no
  other file. In particular, with \<^verbatim>\<open>keep_remote_files\<close> set and
  \<^verbatim>\<open>remove_zero_byte_files\<close> unset no remote delete is invoked.
\<close>

theorem tick_keep_remote_files:
  assumes "KeepRemoteFiles (Storage (odfi s))"
  shows "remote_deletes (snd (tick s shard tr)) = [] \<or>
         RemoveZeroByteFiles (Storage (odfi s)) \<and>
           (\<exists>agent dl. CopyFilesFromRemote agent (Inr dl) \<in> set (snd (tick s shard tr)) \<and>
              remote_deletes (snd (tick s shard tr)) = zero_byte_paths dl)"
proof (cases "upload_New s tr (UploadAgent shard)")
  case (Inl err)
  then show ?thesis by (simp add: tick_def)
next
  case (Inr agent)
  let ?ev1 = "[NewAgent (UploadAgent shard) (Inr agent),
               Log (''start retrieving and processing of inbound files in '' @ Hostname agent)]"
  show ?thesis
  proof (cases "downloader_CopyFilesFromRemote s (tr @ ?ev1) agent")
    case (Inl err)
    with Inr show ?thesis by (simp add: tick_def)
  next
    case r2: (Inr dl)
    let ?ev2 = "?ev1 @ [CopyFilesFromRemote agent (Inr dl)]"
    have t: "snd (tick s shard tr) = ?ev2 @ snd (tick_process s agent dl (tr @ ?ev2))"
      using Inr r2 by (simp add: tick_def Let_def split_beta)
    have r: "remote_deletes (snd (tick s shard tr)) =
               remote_deletes (snd (tick_process s agent dl (tr @ ?ev2)))"
      by (simp add: t)
    have m: "CopyFilesFromRemote agent (Inr dl) \<in> set (snd (tick s shard tr))"
      by (simp add: t)
    from tick_process_keep [OF assms, of agent dl "tr @ ?ev2"] r m show ?thesis
      by auto
  qed
qed

theorem tick_keep_remote_files_witness:
  "KeepRemoteFiles (Storage (odfi sched1)) \<and>
   RemoveZeroByteFiles (Storage (odfi sched1)) \<and>
   (\<exists>agent dl. CopyFilesFromRemote agent (Inr dl) \<in> set (snd (tick sched1 shard_b [])) \<and>
      remote_deletes (snd (tick sched1 shard_b [])) = zero_byte_paths dl)"
proof -
  have h: "KeepRemoteFiles (Storage (odfi sched1))"
    by (simp add: sched1_def)
  have n: "remote_deletes (snd (tick sched1 shard_b [])) \<noteq> []"
    by (simp add: tick_def tick_process_def tick_cleanup_def CleanupEmptyFiles_def
          zero_byte_paths_def sched1_def shard_b_def bundle1_def Let_def)
  show ?thesis
    using tick_keep_remote_files [OF h, of shard_b "[]"] h n by simp
qed

section \<open>All shards\<close>

lemma alertOnError_alerts: "alerts (alertOnError s tr (Some e)) = [e]"
  by (simp add: alertOnError_def Let_def split: option.splits)

lemma alertOnError_lock_keys: "lock_keys (alertOnError s tr e) = []"
  by (simp add: alertOnError_def Let_def split: option.splits)

lemma alertOnError_tick_errors: "tick_errors (alertOnError s tr e) = []"
  by (simp add: alertOnError_def Let_def split: option.splits)

lemma alertOnError_ticks_started: "ticks_started (alertOnError s tr e) = []"
  by (simp add: alertOnError_def Let_def split: option.splits)

lemma alertOnError_locks_acquired: "locks_acquired (alertOnError s tr e) = []"
  by (simp add: alertOnError_def Let_def split: option.splits)

lemma alertOnError_led:
  "led_by_lock f held (alertOnError s tr e @ rest) = led_by_lock f held rest"
  by (simp add: alertOnError_def Let_def split: option.splits)

lemma drop_leaderKey: "drop 16 (leaderKey n) = n"
  by (simp add: leaderKey_def)

lemma take_leaderKey: "take 16 (leaderKey n) = ''achgateway/rdfi/''"
  by (simp add: leaderKey_def)

lemma tickShard_lock_keys:
  "lock_keys (tickShard s n tr) = (if sharding_Find s n = None then [] else [leaderKey n])"
  by (simp add: tickShard_def Let_def split_beta lock_keys_append tick_silent
        alertOnError_lock_keys split: option.splits)

lemma tickShard_alerts: "alerts (tickShard s n tr) = tick_errors (tickShard s n tr)"
  by (simp add: tickShard_def Let_def split_beta alerts_append tick_errors_append tick_silent
        alertOnError_alerts alertOnError_tick_errors split: option.splits)

lemma tickShard_ticks:
  "map Some (ticks_started (tickShard s n tr)) =
     map (\<lambda>k. sharding_Find s (drop 16 k)) (locks_acquired (tickShard s n tr))"
  by (simp add: tickShard_def Let_def split_beta ticks_started_append locks_acquired_append
        tick_silent alertOnError_ticks_started alertOnError_locks_acquired drop_leaderKey
        split: option.splits)

lemma tickShard_led:
  "led_by_lock (sharding_Find s) None (tickShard s n tr @ rest) =
     led_by_lock (sharding_Find s) None rest"
  by (simp add: tickShard_def Let_def split_beta inside_tick_led [OF tick_inside]
        alertOnError_led drop_leaderKey take_leaderKey split: option.splits)

lemma tickAll_loop_lock_keys:
  "lock_keys (tickAll_loop s ns tr) =
     map leaderKey (filter (\<lambda>n. sharding_Find s n \<noteq> None) ns)"
  by (induction ns arbitrary: tr) (simp_all add: Let_def lock_keys_append tickShard_lock_keys)

lemma tickAll_loop_alerts: "alerts (tickAll_loop s ns tr) = tick_errors (tickAll_loop s ns tr)"
  by (induction ns arbitrary: tr)
     (simp_all add: Let_def alerts_append tick_errors_append tickShard_alerts)

lemma tickAll_loop_ticks:
  "map Some (ticks_started (tickAll_loop s ns tr)) =
     map (\<lambda>k. sharding_Find s (drop 16 k)) (locks_acquired (tickAll_loop s ns tr))"
  by (induction ns arbitrary: tr)
     (simp_all add: Let_def ticks_started_append locks_acquired_append tickShard_ticks)

lemma tickAll_loop_led: "led_by_lock (sharding_Find s) None (tickAll_loop s ns tr)"
  by (induction ns arbitrary: tr) (simp_all add: Let_def tickShard_led)

lemma sched1_found:
  "filter (\<lambda>n. sharding_Find sched1 n \<noteq> None) (ShardNames (odfi sched1)) =
     [''alpha'', ''gamma'', ''beta'']"
  by (simp add: sched1_def find_ab_def)

text \<open>
  Claim C3. For every configuration, every history and every behaviour of the
  collaborators, \<^verbatim>\<open>tickAll\<close> returns nil. Whatever the outcome for the shards before it,
  every configured shard that is found has its leader lock attempted, in configuration
  order; a tick is started for each lock acquired, in that order, for the shard found
  under the name in the key; and the errors that ticks returned are the errors handed to
  the alerters, one alert per failed tick, in order.
\<close>

theorem tickAll_isolates_shards:
  "fst (tickAll s tr) = None \<and>
   lock_keys (snd (tickAll s tr)) =
     map leaderKey (filter (\<lambda>n. sharding_Find s n \<noteq> None) (ShardNames (odfi s))) \<and>
   map Some (ticks_started (snd (tickAll s tr))) =
     map (\<lambda>k. sharding_Find s (drop 16 k)) (locks_acquired (snd (tickAll s tr))) \<and>
   alerts (snd (tickAll s tr)) = tick_errors (snd (tickAll s tr))"
  by (simp add: tickAll_def tickAll_loop_lock_keys tickAll_loop_ticks tickAll_loop_alerts)

theorem tickAll_isolates_shards_witness:
  "fst (tickAll sched1 []) = None \<and>
   lock_keys (snd (tickAll sched1 [])) =
     [''achgateway/rdfi/alpha'', ''achgateway/rdfi/gamma'', ''achgateway/rdfi/beta''] \<and>
   ticks_started (snd (tickAll sched1 [])) = [shard_a, shard_b] \<and>
   tick_errors (snd (tickAll sched1 [])) = [''ERROR: problem copying files: connection refused''] \<and>
   alerts (snd (tickAll sched1 [])) = [''ERROR: problem copying files: connection refused'']"
proof -
  have t: "ticks_started (snd (tickAll sched1 [])) = [shard_a, shard_b]"
    by (simp add: tickAll_def tickShard_def tick_def tick_process_def tick_cleanup_def
          CleanupEmptyFiles_def zero_byte_paths_def alertOnError_def leaderKey_def
          sched1_def find_ab_def shard_a_def shard_b_def bundle1_def Let_def)
  have e: "tick_errors (snd (tickAll sched1 [])) = [''ERROR: problem copying files: connection refused'']"
    by (simp add: tickAll_def tickShard_def tick_def tick_process_def tick_cleanup_def
          CleanupEmptyFiles_def zero_byte_paths_def alertOnError_def leaderKey_def
          sched1_def find_ab_def shard_a_def shard_b_def bundle1_def Let_def)
  show ?thesis
    using tickAll_isolates_shards [of sched1 "[]"] sched1_found t e
    by (simp add: leaderKey_def)
qed

text \<open>
  Claim C9. The leader key of a shard name \<^verbatim>\<open>s\<close> is the string \<^verbatim>\<open>achgateway/rdfi/\<close>
  followed by \<^verbatim>\<open>s\<close>. The keys that \<^verbatim>\<open>tickAll\<close> acquires are these keys of the configured
  shard names that are found, one per name and in order, and no other key. Every tick is
  started right after the successful acquisition of one key, the leader key of a name under
  which the ticked shard is found, with no other acquisition in between.
\<close>

theorem tickAll_leader_keys:
  "leaderKey n = ''achgateway/rdfi/'' @ n \<and>
   lock_keys (snd (tickAll s tr)) =
     map (\<lambda>n. ''achgateway/rdfi/'' @ n)
       (filter (\<lambda>n. sharding_Find s n \<noteq> None) (ShardNames (odfi s))) \<and>
   led_by_lock (sharding_Find s) None (snd (tickAll s tr))"
  by (simp add: tickAll_def tickAll_loop_lock_keys tickAll_loop_led leaderKey_def)

theorem tickAll_leader_keys_witness:
  "leaderKey ''alpha'' = ''achgateway/rdfi/alpha'' \<and>
   lock_keys (snd (tickAll sched1 [])) =
     [''achgateway/rdfi/alpha'', ''achgateway/rdfi/gamma'', ''achgateway/rdfi/beta''] \<and>
   led_by_lock find_ab None (snd (tickAll sched1 []))"
proof -
  have g: "sharding_Find sched1 = find_ab"
    by (simp add: sched1_def)
  show ?thesis
    using tickAll_leader_keys [of "''alpha''" sched1 "[]"] sched1_found g
    by simp
qed

end
